theory Spec2Isabelle
  imports Main
begin

section \<open>Python strings\<close>

text \<open>
  A Python \<open>str\<close> is a sequence of Unicode code points, so it is modelled as a list of
  natural numbers. \<open>py ''abc''\<close> is the \<open>str\<close> of an ASCII literal.
\<close>

type_synonym str = "nat list"

abbreviation (input) py :: "string \<Rightarrow> str" where
  "py s \<equiv> map of_char s"

text \<open>
  \<open>str.isspace\<close> for one character: U+0009..U+000D, U+001C..U+0020, U+0085, U+00A0,
  U+1680, U+2000..U+200A, U+2028, U+2029, U+202F, U+205F and U+3000.
\<close>

definition isspace :: "nat \<Rightarrow> bool" where
  "isspace c \<longleftrightarrow>
     (9 \<le> c \<and> c \<le> 13) \<or> (28 \<le> c \<and> c \<le> 32) \<or> c = 133 \<or> c = 160 \<or> c = 5760 \<or>
     (8192 \<le> c \<and> c \<le> 8202) \<or> c = 8232 \<or> c = 8233 \<or> c = 8239 \<or> c = 8287 \<or> c = 12288"

definition lstrip :: "str \<Rightarrow> str" where
  "lstrip s = dropWhile isspace s"

definition rstrip :: "str \<Rightarrow> str" where
  "rstrip s = rev (dropWhile isspace (rev s))"

text \<open>\<open>s.strip()\<close>\<close>

definition strip :: "str \<Rightarrow> str" where
  "strip s = rstrip (lstrip s)"

text \<open>\<open>sep.join(xs)\<close>\<close>

fun join :: "str \<Rightarrow> str list \<Rightarrow> str" where
  "join sep [] = []"
| "join sep [x] = x"
| "join sep (x # y # ys) = x @ sep @ join sep (y # ys)"

section \<open>Exceptions and the outside world\<close>

text \<open>
  The exceptions the two clients distinguish, each with its \<open>str(e)\<close>. All of them are
  subclasses of Python's \<open>Exception\<close>; \<open>OtherException\<close> stands for every other
  subclass of it.
\<close>

datatype exn =
    RequestException str
  | ParseError str
  | PageError str
  | DisambiguationError str "str list"
  | OtherException str

fun str_exn :: "exn \<Rightarrow> str" where
  "str_exn (RequestException m) = m"
| "str_exn (ParseError m) = m"
| "str_exn (PageError m) = m"
| "str_exn (DisambiguationError m opts) = m"
| "str_exn (OtherException m) = m"

text \<open>\<open>e.options\<close> of a \<open>DisambiguationError\<close>\<close>

fun options :: "exn \<Rightarrow> str list" where
  "options (DisambiguationError m opts) = opts"
| "options e = []"

text \<open>
  \<open>try: body except ...: handler\<close>: the handler sees the exception the body raised.
  \<open>Inl e\<close> is "raises \<open>e\<close>", \<open>Inr v\<close> is "returns \<open>v\<close>".
\<close>

definition try_except :: "exn + 'a \<Rightarrow> (exn \<Rightarrow> exn + 'a) \<Rightarrow> exn + 'a" where
  "try_except body handler = (case body of Inl e \<Rightarrow> handler e | Inr v \<Rightarrow> Inr v)"

subsection \<open>XML documents (\<open>xml.etree.ElementTree\<close>)\<close>

text \<open>An element; \<open>text_of\<close> is its \<open>text\<close> attribute (\<open>None\<close> when there is no text).\<close>

datatype element =
  Element (tag: str) (attrib: "(str \<times> str) list") (text_of: "str option") (children: "element list")

text \<open>\<open>elem.iter()\<close>: the element and all its descendants, in document order.\<close>

fun iter :: "element \<Rightarrow> element list" where
  "iter (Element t a x cs) = Element t a x cs # concat (map iter cs)"

text \<open>
  \<open>root.find('.//content[@name="FullSummary"]')\<close>: the first element below \<open>root\<close>
  (\<open>root\<close> itself excluded), in document order, whose tag is \<open>content\<close> and whose
  attribute \<open>name\<close> is \<open>FullSummary\<close>; \<open>None\<close> when there is none.
\<close>

definition is_FullSummary :: "element \<Rightarrow> bool" where
  "is_FullSummary e \<longleftrightarrow>
     tag e = py ''content'' \<and> map_of (attrib e) (py ''name'') = Some (py ''FullSummary'')"

definition descendants :: "element \<Rightarrow> element list" where
  "descendants root = concat (map iter (children root))"

definition find_FullSummary :: "element \<Rightarrow> element option" where
  "find_FullSummary root = List.find is_FullSummary (descendants root)"

text \<open>
  A response body is given by what \<open>ET.fromstring\<close> makes of it: a malformed document
  (with the parser's message) or the tree of a well-formed one.
\<close>

datatype body = Malformed str | Document element

fun ET_fromstring :: "body \<Rightarrow> exn + element" where
  "ET_fromstring (Malformed m) = Inl (ParseError m)"
| "ET_fromstring (Document root) = Inr root"

text \<open>
  A \<open>requests\<close> response: \<open>raise_for_status\<close> is the exception that
  \<open>response.raise_for_status()\<close> raises (\<open>None\<close> when it returns), \<open>content\<close> the body.
\<close>

record response =
  raise_for_status :: "exn option"
  content :: body

text \<open>
  The two services, as the libraries present them: \<open>requests.get(url, params, timeout)\<close>
  and \<open>wikipedia.summary(title, sentences, auto_suggest)\<close>. Either returns or raises.
\<close>

record env =
  requests_get :: "str \<Rightarrow> (str \<times> str) list \<Rightarrow> nat \<Rightarrow> exn + response"
  wikipedia_summary :: "str \<Rightarrow> nat \<Rightarrow> bool \<Rightarrow> exn + str"

text \<open>Every call that goes out to the network is recorded, in order.\<close>

datatype request =
    HttpGet str "(str \<times> str) list" nat
  | WikipediaSummary str nat bool


subsection \<open>HTML documents (\<open>BeautifulSoup(markup, 'html.parser')\<close>)\<close>

text \<open>
  The parse tree: a string of text or a tag with its name and contents (attributes play
  no part in what follows and are not kept). The model covers markup made of start tags,
  end tags, XHTML-style empty tags and character data. Comments, declarations, processing
  instructions, character references, attribute values that contain \<open>>\<close> and the
  raw-text elements \<open>script\<close> and \<open>style\<close> are outside it.
\<close>

datatype node = NavigableString str | Tag str "node list"

text \<open>What \<open>html.parser\<close> reports to its handler methods.\<close>

datatype token = StartTag str | StartEndTag str | EndTag str | Data str

definition ascii_letter :: "nat \<Rightarrow> bool" where
  "ascii_letter c \<longleftrightarrow> (65 \<le> c \<and> c \<le> 90) \<or> (97 \<le> c \<and> c \<le> 122)"

definition lower :: "nat \<Rightarrow> nat" where
  "lower c = (if 65 \<le> c \<and> c \<le> 90 then c + 32 else c)"

text \<open>
  A tag name runs up to the first tab, newline, carriage return, form feed, space,
  \<open>/\<close>, \<open>>\<close> or NUL, and is lower-cased.
\<close>

definition tag_name :: "str \<Rightarrow> str" where
  "tag_name s = map lower (takeWhile (\<lambda>c. c \<notin> {9, 10, 13, 12, 32, 47, 62, 0}) s)"

text \<open>The text before the first \<open>>\<close> and the text after it.\<close>

fun split_gt :: "str \<Rightarrow> (str \<times> str) option" where
  "split_gt [] = None"
| "split_gt (c # cs) =
     (if c = 62 then Some ([], cs)
      else case split_gt cs of None \<Rightarrow> None | Some (a, b) \<Rightarrow> Some (c # a, b))"

text \<open>\<open>s.endswith('/')\<close>\<close>

definition ends_with_slash :: "str \<Rightarrow> bool" where
  "ends_with_slash s \<longleftrightarrow> (case rev s of [] \<Rightarrow> False | c # _ \<Rightarrow> c = 47)"

lemma split_gt_shorter [termination_simp]:
  "split_gt s = Some (a, b) \<Longrightarrow> length b < length s"
  by (induction s arbitrary: a b) (auto split: if_splits option.splits)

text \<open>
  The tokenizer (\<open>HTMLParser.goahead\<close>, at the end of input). Text runs up to the next
  \<open><\<close>. \<open><\<close> and a letter open a start tag, \<open></\<close> and a letter an end tag; either
  ends at the next \<open>>\<close>, and without one the rest of the input is text. Any other \<open><\<close>
  is text.
\<close>

function goahead :: "str \<Rightarrow> token list" where
  "goahead [] = []"
| "goahead (c # cs) =
     (if c \<noteq> 60 then
        Data (c # takeWhile (\<lambda>d. d \<noteq> 60) cs) # goahead (dropWhile (\<lambda>d. d \<noteq> 60) cs)
      else if cs \<noteq> [] \<and> ascii_letter (hd cs) then
        (case split_gt cs of
           None \<Rightarrow> [Data (c # cs)]
         | Some (inside, rest) \<Rightarrow>
             (if ends_with_slash inside then StartEndTag (tag_name inside)
              else StartTag (tag_name inside)) # goahead rest)
      else if length cs \<ge> 2 \<and> hd cs = 47 \<and> ascii_letter (hd (tl cs)) then
        (case split_gt (tl cs) of
           None \<Rightarrow> [Data (c # cs)]
         | Some (inside, rest) \<Rightarrow> EndTag (tag_name inside) # goahead rest)
      else Data [c] # goahead cs)"
  by pat_completeness auto
termination
proof (relation "measure length", goal_cases)
  case 1
  show ?case by simp
next
  case (2 c cs)
  show ?case using length_dropWhile_le [of "\<lambda>d. d \<noteq> 60" cs] by simp
next
  case (3 c cs x2 x y)
  then show ?case using split_gt_shorter [of cs x y] by simp
next
  case (4 c cs x2 x y)
  then show ?case using split_gt_shorter [of "tl cs" x y] by (cases cs) auto
next
  case (5 c cs)
  show ?case by simp
qed

text \<open>
  The tree builder. \<open>tagStack\<close> holds the open tags, innermost first, each with its name
  and the contents parsed so far; its last entry is the document itself. \<open>current_data\<close>
  collects text until the next tag; \<open>already_closed_empty_element\<close> lists the void tags
  closed at their start tag.
\<close>

record builder =
  tagStack :: "(str \<times> node list) list"
  current_data :: str
  already_closed_empty_element :: "str list"

definition ROOT_TAG_NAME :: str where
  "ROOT_TAG_NAME = py ''[document]''"

definition empty_element_tags :: "str set" where
  "empty_element_tags = set (map py
     [''area'', ''base'', ''br'', ''col'', ''embed'', ''hr'', ''img'', ''input'', ''keygen'',
      ''link'', ''menuitem'', ''meta'', ''param'', ''source'', ''track'', ''wbr'',
      ''basefont'', ''bgsound'', ''command'', ''frame'', ''image'', ''isindex'', ''nextid'',
      ''spacer''])"

definition preserve_whitespace_tags :: "str set" where
  "preserve_whitespace_tags = {py ''pre'', py ''textarea''}"

text \<open>The new object becomes the last child of the innermost open tag.\<close>

definition object_was_parsed :: "node \<Rightarrow> builder \<Rightarrow> builder" where
  "object_was_parsed obj b =
     (case tagStack b of
        [] \<Rightarrow> b
      | (name, contents) # stack \<Rightarrow> b\<lparr>tagStack := (name, contents @ [obj]) # stack\<rparr>)"

text \<open>
  \<open>endData\<close>: the collected text becomes one string of the tree. Text made of the ASCII
  spaces only, outside \<open>pre\<close> and \<open>textarea\<close>, is replaced by one newline or one space.
\<close>

definition endData :: "builder \<Rightarrow> builder" where
  "endData b =
     (if current_data b = [] then b
      else
        let d = current_data b;
            d' = (if list_all (\<lambda>c. c \<in> {32, 10, 9, 12, 13}) d \<and>
                     set (map fst (tagStack b)) \<inter> preserve_whitespace_tags = {}
                  then (if 10 \<in> set d then [10] else [32])
                  else d)
        in object_was_parsed (NavigableString d') (b\<lparr>current_data := []\<rparr>))"

text \<open>
  \<open>_popToTag\<close>: pops up to and including the most recent open tag of that name; the
  caller has checked that one is open.
\<close>

fun popToTag :: "str \<Rightarrow> (str \<times> node list) list \<Rightarrow> (str \<times> node list) list" where
  "popToTag name ((n, contents) # (parent, siblings) # stack) =
     (if n = name then (parent, siblings @ [Tag n contents]) # stack
      else popToTag name ((parent, siblings @ [Tag n contents]) # stack))"
| "popToTag name stack = stack"

text \<open>The soup's \<open>handle_endtag\<close>; an end tag with no open tag of its name pops nothing.\<close>

definition soup_handle_endtag :: "str \<Rightarrow> builder \<Rightarrow> builder" where
  "soup_handle_endtag name b =
     (let b' = endData b in
      if name \<in> set (map fst (butlast (tagStack b')))
      then b'\<lparr>tagStack := popToTag name (tagStack b')\<rparr>
      else b')"

text \<open>The soup's \<open>handle_starttag\<close>: the new tag is opened.\<close>

definition soup_handle_starttag :: "str \<Rightarrow> builder \<Rightarrow> builder" where
  "soup_handle_starttag name b =
     (let b' = endData b in b'\<lparr>tagStack := (name, []) # tagStack b'\<rparr>)"

text \<open>The parser's handler methods (\<open>BeautifulSoupHTMLParser\<close>).\<close>

definition handle_endtag :: "str \<Rightarrow> bool \<Rightarrow> builder \<Rightarrow> builder" where
  "handle_endtag name check_already_closed b =
     (if check_already_closed \<and> name \<in> set (already_closed_empty_element b)
      then b\<lparr>already_closed_empty_element := remove1 name (already_closed_empty_element b)\<rparr>
      else soup_handle_endtag name b)"

definition handle_starttag :: "str \<Rightarrow> bool \<Rightarrow> builder \<Rightarrow> builder" where
  "handle_starttag name handle_empty_element b =
     (let b' = soup_handle_starttag name b in
      if name \<in> empty_element_tags \<and> handle_empty_element
      then (let b'' = handle_endtag name False b'
            in b''\<lparr>already_closed_empty_element := already_closed_empty_element b'' @ [name]\<rparr>)
      else b')"

definition handle_startendtag :: "str \<Rightarrow> builder \<Rightarrow> builder" where
  "handle_startendtag name b = handle_endtag name True (handle_starttag name False b)"

definition handle_data :: "str \<Rightarrow> builder \<Rightarrow> builder" where
  "handle_data d b = b\<lparr>current_data := current_data b @ d\<rparr>"

fun handle :: "token \<Rightarrow> builder \<Rightarrow> builder" where
  "handle (StartTag name) b = handle_starttag name True b"
| "handle (StartEndTag name) b = handle_startendtag name b"
| "handle (EndTag name) b = handle_endtag name True b"
| "handle (Data d) b = handle_data d b"

text \<open>
  At the end of the input every tag still open is closed (\<open>popTag\<close>): it is complete
  and joins the contents of its parent.
\<close>

fun close_all :: "(str \<times> node list) list \<Rightarrow> node list" where
  "close_all [] = []"
| "close_all [(name, contents)] = contents"
| "close_all ((name, contents) # (parent, siblings) # stack) =
     close_all ((parent, siblings @ [Tag name contents]) # stack)"

text \<open>\<open>BeautifulSoup(markup, 'html.parser')\<close>: the contents of the parsed document.\<close>

definition BeautifulSoup :: "str \<Rightarrow> node list" where
  "BeautifulSoup markup =
     close_all (tagStack (endData (fold handle (goahead markup)
       \<lparr>tagStack = [(ROOT_TAG_NAME, [])], current_data = [], already_closed_empty_element = []\<rparr>)))"


text \<open>The string that \<open>li.insert(0, ...)\<close> puts in front of each list item.\<close>

definition bullet :: str where
  "bullet = [10, 226, 8364, 162, 32]"

text \<open>
  \<open>for li in soup.find_all('li'): li.insert(0, ...)\<close>: every \<open>li\<close> tag of the tree gets the
  string as its first child.
\<close>

fun insert_bullets :: "node \<Rightarrow> node" where
  "insert_bullets (NavigableString s) = NavigableString s"
| "insert_bullets (Tag n contents) =
     Tag n ((if n = py ''li'' then [NavigableString bullet] else []) @ map insert_bullets contents)"

text \<open>The strings of a tree, in document order.\<close>

fun strings :: "node \<Rightarrow> str list" where
  "strings (NavigableString s) = [s]"
| "strings (Tag n contents) = concat (map strings contents)"

text \<open>
  \<open>soup.get_text(separator=sep, strip=True)\<close>: every string is stripped, the empty ones
  are dropped and the rest joined.
\<close>

definition get_text :: "str \<Rightarrow> node list \<Rightarrow> str" where
  "get_text sep soup =
     join sep (filter (\<lambda>s. s \<noteq> []) (map strip (concat (map strings soup))))"

text \<open>The cleaning of the HTML fragment as \<open>get_medlineplus_definition\<close> does it.\<close>

definition clean_text :: "str \<Rightarrow> str" where
  "clean_text raw_html_content =
     get_text (py '' '') (map insert_bullets (BeautifulSoup raw_html_content))"

section \<open>The two clients\<close>

definition base_url :: str where
  "base_url = py ''https://wsearch.nlm.nih.gov/ws/query''"

definition params :: "str \<Rightarrow> (str \<times> str) list" where
  "params term =
     [(py ''db'', py ''healthTopics''), (py ''term'', term), (py ''rettype'', py ''brief'')]"

text \<open>The \<open>try\<close> block of \<open>get_medlineplus_definition\<close>.\<close>

definition medlineplus_try :: "env \<Rightarrow> str \<Rightarrow> exn + str option" where
  "medlineplus_try env term =
     (case requests_get env base_url (params term) 10 of
        Inl e \<Rightarrow> Inl e
      | Inr response \<Rightarrow>
          (case raise_for_status response of
             Some e \<Rightarrow> Inl e
           | None \<Rightarrow>
               (case ET_fromstring (content response) of
                  Inl e \<Rightarrow> Inl e
                | Inr root \<Rightarrow>
                    (case find_FullSummary root of
                       None \<Rightarrow> Inr None
                     | Some snippet_element \<Rightarrow>
                         (case text_of snippet_element of
                            None \<Rightarrow> Inr None
                          | Some t \<Rightarrow>
                              if t = [] then Inr None
                              else
                                let raw_html_content = strip t;
                                    clean = clean_text raw_html_content
                                in Inr (Some (py ''Source: MedlinePlus (U.S. National Library of Medicine)\<newline>\<newline>'' @ clean)))))))"

text \<open>Its \<open>except\<close> clauses, in the order of the source.\<close>

fun medlineplus_except :: "exn \<Rightarrow> exn + str option" where
  "medlineplus_except (RequestException m) =
     Inr (Some (py ''MedlinePlus service is currently unavailable. Please check your internet connection.''))"
| "medlineplus_except (ParseError m) =
     Inr (Some (py ''Failed to parse the response from MedlinePlus.''))"
| "medlineplus_except e =
     Inr (Some (py ''An unexpected error occurred with the MedlinePlus service: '' @ str_exn e))"

text \<open>
  \<open>get_medlineplus_definition(term)\<close>: the value returned (\<open>None\<close> is Python's \<open>None\<close>) or
  the exception that leaves the function, and the log with the request made.
\<close>

definition get_medlineplus_definition ::
    "env \<Rightarrow> str \<Rightarrow> request list \<Rightarrow> (exn + str option) \<times> request list" where
  "get_medlineplus_definition env term log =
     (try_except (medlineplus_try env term) medlineplus_except,
      log @ [HttpGet base_url (params term) 10])"

text \<open>The \<open>try\<close> block of \<open>get_wikipedia_definition\<close> and its \<open>except\<close> clauses.\<close>

definition wikipedia_try :: "env \<Rightarrow> str \<Rightarrow> exn + str" where
  "wikipedia_try env term =
     (case wikipedia_summary env term 4 False of
        Inl e \<Rightarrow> Inl e
      | Inr summary \<Rightarrow> Inr (py ''Source: Wikipedia\<newline>\<newline>'' @ summary))"

fun wikipedia_except :: "str \<Rightarrow> exn \<Rightarrow> exn + str" where
  "wikipedia_except term (PageError m) =
     Inr (py ''Sorry, the term '' @ [39] @ term @ [39] @
          py '' could not be found in MedlinePlus or Wikipedia.'')"
| "wikipedia_except term (DisambiguationError m opts) =
     Inr (py ''The term '' @ [39] @ term @ [39] @ py '' is ambiguous on Wikipedia. '' @
          py ''Please be more specific. Some options might be: '' @
          join (py '', '') (take 4 (options (DisambiguationError m opts))) @ py ''...'')"
| "wikipedia_except term e =
     Inr (py ''An error occurred while fetching from Wikipedia: '' @ str_exn e)"

definition get_wikipedia_definition ::
    "env \<Rightarrow> str \<Rightarrow> request list \<Rightarrow> (exn + str) \<times> request list" where
  "get_wikipedia_definition env term log =
     (try_except (wikipedia_try env term) (wikipedia_except term),
      log @ [WikipediaSummary term 4 False])"

section \<open>The application\<close>

datatype widget_state = normal | disabled

text \<open>The widgets \<open>search_event\<close> and \<open>update_gui_with_result\<close> read and write.\<close>

record app =
  search_entry :: str
  search_entry_state :: widget_state
  search_button_text :: str
  search_button_state :: widget_state
  result_textbox :: str
  result_textbox_state :: widget_state

definition update_gui_with_result :: "str \<Rightarrow> app \<Rightarrow> app" where
  "update_gui_with_result definition self =
     self\<lparr>result_textbox := definition, result_textbox_state := disabled,
          search_button_state := normal, search_button_text := py ''Search'',
          search_entry_state := normal\<rparr>"

text \<open>
  \<open>perform_search(term)\<close>: the window after the result is shown (or the exception that
  ends the thread) and the log of the requests made.
\<close>

definition perform_search ::
    "env \<Rightarrow> str \<Rightarrow> app \<Rightarrow> request list \<Rightarrow> (exn + app) \<times> request list" where
  "perform_search env term self log =
     (case get_medlineplus_definition env term log of
        (Inl e, log1) \<Rightarrow> (Inl e, log1)
      | (Inr (Some definition), log1) \<Rightarrow> (Inr (update_gui_with_result definition self), log1)
      | (Inr None, log1) \<Rightarrow>
          (case get_wikipedia_definition env term log1 of
             (Inl e, log2) \<Rightarrow> (Inl e, log2)
           | (Inr definition, log2) \<Rightarrow> (Inr (update_gui_with_result definition self), log2)))"

text \<open>
  \<open>search_event()\<close>: the window as it leaves it, and the argument of the thread it
  starts (\<open>None\<close> when it starts none).
\<close>

definition search_event :: "app \<Rightarrow> app \<times> str option" where
  "search_event self =
     (let term = search_entry self in
      if term = [] then
        (self\<lparr>result_textbox := py ''Please enter a term to search.'',
              result_textbox_state := disabled\<rparr>, None)
      else
        (self\<lparr>search_button_state := disabled, search_button_text := py ''Searching...'',
              search_entry_state := disabled,
              result_textbox := py ''Searching for '' @ [39] @ term @ [39] @ py ''...'',
              result_textbox_state := disabled\<rparr>, Some term))"

text \<open>A search from the click to the end of the thread it starts.\<close>

definition search :: "env \<Rightarrow> app \<Rightarrow> request list \<Rightarrow> (exn + app) \<times> request list" where
  "search env self log =
     (case search_event self of
        (self', None) \<Rightarrow> (Inr self', log)
      | (self', Some term) \<Rightarrow> perform_search env term self' log)"

section \<open>Example services\<close>

text \<open>
  An environment whose primary service answers every request with \<open>primary\<close> and whose
  encyclopedia answers every request with \<open>fallback\<close>.
\<close>

definition example_env :: "exn + response \<Rightarrow> exn + str \<Rightarrow> env" where
  "example_env primary fallback =
     \<lparr>requests_get = (\<lambda>url ps timeout. primary),
      wikipedia_summary = (\<lambda>title sentences auto_suggest. fallback)\<rparr>"

text \<open>A response with a good status and the given body.\<close>

definition example_response :: "body \<Rightarrow> response" where
  "example_response b = \<lparr>raise_for_status = None, content = b\<rparr>"

text \<open>A search result whose only document has the given contents.\<close>

definition example_document :: "element list \<Rightarrow> body" where
  "example_document contents =
     Document (Element (py ''nlmSearchResult'') [] None
       [Element (py ''term'') [] (Some (py ''query'')) [],
        Element (py ''list'') [(py ''num'', py ''1'')] None
          [Element (py ''document'') [(py ''rank'', py ''0'')] None contents]])"

text \<open>The window at rest, with \<open>raw\<close> typed into the entry.\<close>

definition example_app :: "str \<Rightarrow> app" where
  "example_app raw =
     \<lparr>search_entry = raw, search_entry_state = normal, search_button_text = py ''Search'',
      search_button_state = normal, result_textbox = [], result_textbox_state = disabled\<rparr>"

section \<open>Neither client raises\<close>

lemma medlineplus_except_returns: "\<exists>r. medlineplus_except e = Inr (Some r)"
  by (cases e) simp_all

lemma wikipedia_except_returns: "\<exists>r. wikipedia_except term e = Inr r"
  by (cases e) simp_all

lemma medlineplus_returns: "\<exists>r. fst (get_medlineplus_definition env term log) = Inr r"
proof (cases "medlineplus_try env term")
  case (Inl e)
  then show ?thesis
    using medlineplus_except_returns [of e]
    by (auto simp: get_medlineplus_definition_def try_except_def)
next
  case (Inr v)
  then show ?thesis by (simp add: get_medlineplus_definition_def try_except_def)
qed

lemma wikipedia_returns: "\<exists>r. fst (get_wikipedia_definition env term log) = Inr r"
proof (cases "wikipedia_try env term")
  case (Inl e)
  then show ?thesis
    using wikipedia_except_returns [of "term" e]
    by (auto simp: get_wikipedia_definition_def try_except_def)
next
  case (Inr v)
  then show ?thesis by (simp add: get_wikipedia_definition_def try_except_def)
qed

lemma medlineplus_log:
  "snd (get_medlineplus_definition env term log) = log @ [HttpGet base_url (params term) 10]"
  by (simp add: get_medlineplus_definition_def)

lemma wikipedia_log:
  "snd (get_wikipedia_definition env term log) = log @ [WikipediaSummary term 4 False]"
  by (simp add: get_wikipedia_definition_def)

lemma wikipedia_result_log:
  "fst (get_wikipedia_definition env term log) = fst (get_wikipedia_definition env term log')"
  by (simp add: get_wikipedia_definition_def)

section \<open>The fallback client\<close>

text \<open>
  C10: whenever the summary call of the encyclopedia succeeds, the text returned by the
  fallback client is not the bare summary: it is \<open>Source: Wikipedia\<close>, a blank line (two
  newlines) and then the summary.
\<close>

theorem wikipedia_found_text:
  assumes "wikipedia_summary env term 4 False = Inr summary"
  shows "fst (get_wikipedia_definition env term log) =
           Inr (py ''Source: Wikipedia'' @ [10, 10] @ summary)"
  using assms by (simp add: get_wikipedia_definition_def wikipedia_try_def try_except_def)

theorem wikipedia_found_text_witness:
  "fst (get_wikipedia_definition
          (example_env (Inl (RequestException [])) (Inr (py ''Aspirin is a drug.'')))
          (py ''aspirin'') []) =
     Inr (py ''Source: Wikipedia'' @ [10, 10] @ py ''Aspirin is a drug.'')"
  using wikipedia_found_text
    [of "example_env (Inl (RequestException [])) (Inr (py ''Aspirin is a drug.''))"
        "py ''aspirin''" "py ''Aspirin is a drug.''" "[]"]
  by (simp add: example_env_def)

text \<open>
  C6: when the encyclopedia reports the term as ambiguous with more than four candidate
  titles, the message of the fallback client lists the first four titles, in order,
  joined by a comma and a space, then an ellipsis; no later candidate appears in it.
\<close>

theorem ambiguous_message:
  assumes "wikipedia_summary env term 4 False = Inl (DisambiguationError m opts)"
    and "4 < length opts"
  shows "fst (get_wikipedia_definition env term log) =
           Inr (py ''The term '' @ [39] @ term @ [39] @
                py '' is ambiguous on Wikipedia. Please be more specific. Some options might be: '' @
                opts ! 0 @ py '', '' @ opts ! 1 @ py '', '' @ opts ! 2 @ py '', '' @ opts ! 3 @
                py ''...'')"
proof -
  from assms(2) obtain a b c d rest where opts: "opts = a # b # c # d # rest"
    by (cases opts; cases "tl opts"; cases "tl (tl opts)"; cases "tl (tl (tl opts))") auto
  show ?thesis
    using assms(1) unfolding opts
    by (simp add: get_wikipedia_definition_def wikipedia_try_def try_except_def)
qed

theorem ambiguous_message_witness:
  "fst (get_wikipedia_definition
          (example_env (Inl (RequestException []))
             (Inl (DisambiguationError []
                [py ''X1'', py ''X2'', py ''X3'', py ''X4'', py ''X5'', py ''X6''])))
          (py ''mercury'') []) =
     Inr (py ''The term 'mercury' is ambiguous on Wikipedia. Please be more specific. Some options might be: X1, X2, X3, X4...'')"
  using ambiguous_message
    [of "example_env (Inl (RequestException []))
           (Inl (DisambiguationError []
              [py ''X1'', py ''X2'', py ''X3'', py ''X4'', py ''X5'', py ''X6'']))"
        "py ''mercury''" "[]"
        "[py ''X1'', py ''X2'', py ''X3'', py ''X4'', py ''X5'', py ''X6'']" "[]"]
  by (simp add: example_env_def)

section \<open>The primary client\<close>


lemma perform_search_found:
  assumes "fst (get_medlineplus_definition env term log) = Inr (Some d)"
  shows "perform_search env term self log =
           (Inr (update_gui_with_result d self), log @ [HttpGet base_url (params term) 10])"
  using assms medlineplus_log [of env "term" log]
  by (cases "get_medlineplus_definition env term log") (simp add: perform_search_def)

lemma perform_search_not_found:
  assumes "fst (get_medlineplus_definition env term log) = Inr None"
    and "fst (get_wikipedia_definition env term log) = Inr d"
  shows "perform_search env term self log =
           (Inr (update_gui_with_result d self),
            log @ [HttpGet base_url (params term) 10, WikipediaSummary term 4 False])"
proof -
  let ?log1 = "log @ [HttpGet base_url (params term) 10]"
  have 1: "get_medlineplus_definition env term log = (Inr None, ?log1)"
    using assms(1) medlineplus_log [of env "term" log] by (simp add: prod_eq_iff)
  have "fst (get_wikipedia_definition env term ?log1) = Inr d"
    using assms(2) wikipedia_result_log [of env "term" ?log1 log] by simp
  then have 2: "get_wikipedia_definition env term ?log1 =
      (Inr d, ?log1 @ [WikipediaSummary term 4 False])"
    using wikipedia_log [of env "term" ?log1] by (simp add: prod_eq_iff)
  show ?thesis by (simp add: perform_search_def 1 2)
qed



section \<open>The resolver\<close>

text \<open>
  C1: \<open>perform_search\<close> calls the primary client first. When the primary client returns a
  text (a definition or an error message), that text is the final result and the only
  request made is the one to the primary service: the fallback client is not invoked.
  When the primary client returns \<open>None\<close>, the fallback client is invoked and its result
  is the final result, unchanged. The fallback request is made if and only if the primary
  client returns \<open>None\<close>.
\<close>

theorem perform_search_order:
  "(fst (get_medlineplus_definition env term log) = Inr (Some d) \<longrightarrow>
      perform_search env term self log =
        (Inr (update_gui_with_result d self), log @ [HttpGet base_url (params term) 10])) \<and>
   (fst (get_medlineplus_definition env term log) = Inr None \<and>
    fst (get_wikipedia_definition env term log) = Inr d \<longrightarrow>
      perform_search env term self log =
        (Inr (update_gui_with_result d self),
         log @ [HttpGet base_url (params term) 10, WikipediaSummary term 4 False])) \<and>
   (WikipediaSummary term 4 False \<in> set (drop (length log) (snd (perform_search env term self log)))
      \<longleftrightarrow> fst (get_medlineplus_definition env term log) = Inr None) \<and>
   hd (drop (length log) (snd (perform_search env term self log))) = HttpGet base_url (params term) 10 \<and>
   result_textbox (update_gui_with_result d self) = d"
proof (intro conjI impI)
  assume "fst (get_medlineplus_definition env term log) = Inr (Some d)"
  then show "perform_search env term self log =
        (Inr (update_gui_with_result d self), log @ [HttpGet base_url (params term) 10])"
    by (rule perform_search_found)
next
  assume "fst (get_medlineplus_definition env term log) = Inr None \<and>
    fst (get_wikipedia_definition env term log) = Inr d"
  then show "perform_search env term self log =
        (Inr (update_gui_with_result d self),
         log @ [HttpGet base_url (params term) 10, WikipediaSummary term 4 False])"
    by (simp add: perform_search_not_found)
next
  obtain r where r: "fst (get_medlineplus_definition env term log) = Inr r"
    using medlineplus_returns by blast
  obtain w where w: "fst (get_wikipedia_definition env term log) = Inr w"
    using wikipedia_returns by blast
  show "WikipediaSummary term 4 False \<in> set (drop (length log) (snd (perform_search env term self log)))
      \<longleftrightarrow> fst (get_medlineplus_definition env term log) = Inr None"
  proof (cases r)
    case None
    then show ?thesis using r w by (simp add: perform_search_not_found)
  next
    case (Some d')
    then show ?thesis using r by (simp add: perform_search_found)
  qed
  show "hd (drop (length log) (snd (perform_search env term self log))) = HttpGet base_url (params term) 10"
  proof (cases r)
    case None
    then show ?thesis using r w by (simp add: perform_search_not_found)
  next
    case (Some d')
    then show ?thesis using r by (simp add: perform_search_found)
  qed
next
  show "result_textbox (update_gui_with_result d self) = d"
    by (simp add: update_gui_with_result_def)
qed

theorem perform_search_order_witness:
  "perform_search
     (example_env (Inl (RequestException (py ''timed out''))) (Inr (py ''Influenza is a disease.'')))
     (py ''flu'') (example_app (py ''flu'')) [] =
     (Inr (update_gui_with_result
        (py ''MedlinePlus service is currently unavailable. Please check your internet connection.'')
        (example_app (py ''flu''))),
      [HttpGet base_url (params (py ''flu'')) 10]) \<and>
   perform_search
     (example_env (Inr (example_response (example_document []))) (Inr (py ''Influenza is a disease.'')))
     (py ''flu'') (example_app (py ''flu'')) [] =
     (Inr (update_gui_with_result
        (py ''Source: Wikipedia'' @ [10, 10] @ py ''Influenza is a disease.'')
        (example_app (py ''flu''))),
      [HttpGet base_url (params (py ''flu'')) 10, WikipediaSummary (py ''flu'') 4 False])"
  using perform_search_order
      [of "example_env (Inl (RequestException (py ''timed out''))) (Inr (py ''Influenza is a disease.''))"
          "py ''flu''" "[]"
          "py ''MedlinePlus service is currently unavailable. Please check your internet connection.''"
          "example_app (py ''flu'')"]
    perform_search_order
      [of "example_env (Inr (example_response (example_document []))) (Inr (py ''Influenza is a disease.''))"
          "py ''flu''" "[]"
          "py ''Source: Wikipedia'' @ [10, 10] @ py ''Influenza is a disease.''"
          "example_app (py ''flu'')"]
  by (simp add: example_env_def example_response_def example_document_def
        get_medlineplus_definition_def get_wikipedia_definition_def try_except_def
        medlineplus_try_def wikipedia_try_def find_FullSummary_def descendants_def is_FullSummary_def)

section \<open>The term does not exist\<close>

text \<open>
  C5, as stated, fails: for the term \<open>xyzzy123\<close>, with no entry in the primary service
  and no page in the encyclopedia, neither the fallback client nor the resolver gives the
  message \<open>'xyzzy123' could not be found in either source\<close>.
\<close>

theorem either_source_message_counterexample:
  "fst (get_wikipedia_definition
          (example_env (Inr (example_response (example_document []))) (Inl (PageError [])))
          (py ''xyzzy123'') []) \<noteq>
     Inr (py '''xyzzy123' could not be found in either source'') \<and>
   fst (perform_search
          (example_env (Inr (example_response (example_document []))) (Inl (PageError [])))
          (py ''xyzzy123'') (example_app (py ''xyzzy123'')) []) \<noteq>
     Inr (update_gui_with_result (py '''xyzzy123' could not be found in either source'')
            (example_app (py ''xyzzy123'')))"
  by (simp add: example_env_def example_response_def example_document_def example_app_def
        perform_search_def update_gui_with_result_def
        get_medlineplus_definition_def get_wikipedia_definition_def try_except_def
        medlineplus_try_def wikipedia_try_def find_FullSummary_def descendants_def is_FullSummary_def)

text \<open>
  C5, amended: when the encyclopedia reports that the term has no page, the fallback
  client returns the message \<open>Sorry, the term '<term>' could not be found in MedlinePlus
  or Wikipedia.\<close> with the term in place; when the primary client has returned \<open>None\<close>
  before, this message is the final result of the resolver.
\<close>

theorem page_error_message:
  assumes "wikipedia_summary env term 4 False = Inl (PageError m)"
  shows "fst (get_wikipedia_definition env term log) =
           Inr (py ''Sorry, the term '' @ [39] @ term @ [39] @
                py '' could not be found in MedlinePlus or Wikipedia.'') \<and>
         (fst (get_medlineplus_definition env term log) = Inr None \<longrightarrow>
            perform_search env term self log =
              (Inr (update_gui_with_result
                 (py ''Sorry, the term '' @ [39] @ term @ [39] @
                  py '' could not be found in MedlinePlus or Wikipedia.'') self),
               log @ [HttpGet base_url (params term) 10, WikipediaSummary term 4 False]))"
proof -
  have w: "fst (get_wikipedia_definition env term log) =
           Inr (py ''Sorry, the term '' @ [39] @ term @ [39] @
                py '' could not be found in MedlinePlus or Wikipedia.'')"
    using assms by (simp add: get_wikipedia_definition_def wikipedia_try_def try_except_def)
  show ?thesis
    using w perform_search_not_found [of env "term" log _ self] by blast
qed

theorem page_error_message_witness:
  "perform_search
     (example_env (Inr (example_response (example_document []))) (Inl (PageError [])))
     (py ''xyzzy123'') (example_app (py ''xyzzy123'')) [] =
     (Inr (update_gui_with_result
        (py ''Sorry, the term 'xyzzy123' could not be found in MedlinePlus or Wikipedia.'')
        (example_app (py ''xyzzy123''))),
      [HttpGet base_url (params (py ''xyzzy123'')) 10, WikipediaSummary (py ''xyzzy123'') 4 False])"
  using page_error_message
      [of "example_env (Inr (example_response (example_document []))) (Inl (PageError []))"
          "py ''xyzzy123''" "[]" "[]" "example_app (py ''xyzzy123'')"]
  by (simp add: example_env_def example_response_def example_document_def
        get_medlineplus_definition_def try_except_def
        medlineplus_try_def find_FullSummary_def descendants_def is_FullSummary_def)

section \<open>The input\<close>

text \<open>
  C2, as stated, fails: an input of two spaces is not rejected, it is handed to the
  search thread as it is and a request goes out for it; and the input \<open>flu\<close> with a space
  on either side reaches the clients with its spaces.
\<close>

theorem whitespace_input_counterexample:
  "strip (py ''  '') = [] \<and>
   snd (search_event (example_app (py ''  ''))) = Some (py ''  '') \<and>
   snd (search (example_env (Inl (RequestException [])) (Inr [])) (example_app (py ''  '')) []) =
     [HttpGet base_url (params (py ''  '')) 10] \<and>
   strip (py '' flu '') = py ''flu'' \<and>
   snd (search_event (example_app (py '' flu ''))) = Some (py '' flu '')"
  by (simp add: strip_def lstrip_def rstrip_def isspace_def search_event_def search_def
        example_app_def example_env_def perform_search_def get_medlineplus_definition_def Let_def
        try_except_def medlineplus_try_def)

text \<open>
  C2, amended: for the empty input no thread is started, no request is made and the
  result area asks for a term; for every non-empty input, one of white space only
  included, the term handed to the clients is the input unchanged, with nothing trimmed.
\<close>

theorem search_event_term:
  "(search_entry self = [] \<longrightarrow>
      snd (search_event self) = None \<and>
      result_textbox (fst (search_event self)) = py ''Please enter a term to search.'' \<and>
      snd (search env self log) = log) \<and>
   (search_entry self \<noteq> [] \<longrightarrow>
      snd (search_event self) = Some (search_entry self) \<and>
      hd (drop (length log) (snd (search env self log))) =
        HttpGet base_url (params (search_entry self)) 10)"
proof (intro conjI impI)
  assume ne: "search_entry self \<noteq> []"
  obtain self' where se: "search_event self = (self', Some (search_entry self))"
    using ne by (simp add: search_event_def Let_def)
  obtain r where r: "fst (get_medlineplus_definition env (search_entry self) log) = Inr r"
    using medlineplus_returns by blast
  obtain w where w: "fst (get_wikipedia_definition env (search_entry self) log) = Inr w"
    using wikipedia_returns by blast
  show "hd (drop (length log) (snd (search env self log))) =
        HttpGet base_url (params (search_entry self)) 10"
  proof (cases r)
    case None
    then show ?thesis using r w se by (simp add: search_def perform_search_not_found)
  next
    case (Some d)
    then show ?thesis using r se by (simp add: search_def perform_search_found)
  qed
qed (simp_all add: search_event_def search_def Let_def)

theorem search_event_term_witness:
  "snd (search (example_env (Inl (RequestException [])) (Inr [])) (example_app []) []) = [] \<and>
   snd (search_event (example_app [])) = None \<and>
   snd (search_event (example_app (py '' flu ''))) = Some (py '' flu '')"
  using search_event_term [of "example_app []" "example_env (Inl (RequestException [])) (Inr [])" "[]"]
    search_event_term [of "example_app (py '' flu '')" "example_env (Inl (RequestException [])) (Inr [])" "[]"]
  by (simp add: example_app_def)


section \<open>The full-summary field\<close>


lemma medlineplus_try_document:
  assumes "requests_get env base_url (params term) 10 = Inr response"
    and "raise_for_status response = None"
    and "content response = Document root"
  shows "medlineplus_try env term =
           (case find_FullSummary root of
              None \<Rightarrow> Inr None
            | Some snippet_element \<Rightarrow>
                (case text_of snippet_element of
                   None \<Rightarrow> Inr None
                 | Some t \<Rightarrow>
                     if t = [] then Inr None
                     else Inr (Some (py ''Source: MedlinePlus (U.S. National Library of Medicine)'' @
                                     [10, 10] @ clean_text (strip t)))))"
  using assms by (simp add: medlineplus_try_def Let_def split: option.splits)

lemmas html_eval = BeautifulSoup_def clean_text_def get_text_def strip_def lstrip_def rstrip_def
  isspace_def endData_def handle_starttag_def handle_endtag_def handle_startendtag_def
  handle_data_def soup_handle_starttag_def soup_handle_endtag_def object_was_parsed_def
  tag_name_def lower_def ascii_letter_def ends_with_slash_def empty_element_tags_def
  preserve_whitespace_tags_def ROOT_TAG_NAME_def bullet_def Let_def

lemmas client_eval = example_env_def example_response_def example_document_def
  find_FullSummary_def descendants_def is_FullSummary_def



section \<open>End to end\<close>

lemma clean_paragraph:
  "clean_text (strip (py ''<p>High blood sugar</p>'')) = py ''High blood sugar''"
  by (simp add: html_eval)

text \<open>
  C8: for the term \<open>diabetes\<close>, when the response of the primary service carries the
  full-summary field \<open><p>High blood sugar</p>\<close>, the resolver's result is exactly
  \<open>Source: MedlinePlus (U.S. National Library of Medicine)\<close>, a blank line and
  \<open>High blood sugar\<close>, and the only request made is the one to the primary service.
\<close>

theorem diabetes_end_to_end:
  assumes "requests_get env base_url (params (py ''diabetes'')) 10 = Inr response"
    and "raise_for_status response = None"
    and "content response = Document root"
    and "find_FullSummary root = Some snippet_element"
    and "text_of snippet_element = Some (py ''<p>High blood sugar</p>'')"
  shows "perform_search env (py ''diabetes'') self log =
           (Inr (update_gui_with_result
              (py ''Source: MedlinePlus (U.S. National Library of Medicine)'' @ [10, 10] @
               py ''High blood sugar'') self),
            log @ [HttpGet base_url (params (py ''diabetes'')) 10])"
proof -
  have body: "medlineplus_try env (py ''diabetes'') =
          Inr (Some (py ''Source: MedlinePlus (U.S. National Library of Medicine)'' @ [10, 10] @
                     clean_text (strip (py ''<p>High blood sugar</p>''))))"
    by (subst medlineplus_try_document [OF assms(1-3)]) (simp add: assms(4,5))
  have "fst (get_medlineplus_definition env (py ''diabetes'') log) =
          Inr (Some (py ''Source: MedlinePlus (U.S. National Library of Medicine)'' @ [10, 10] @
                     py ''High blood sugar''))"
    unfolding get_medlineplus_definition_def try_except_def body clean_paragraph by simp
  then show ?thesis by (rule perform_search_found)
qed

theorem diabetes_end_to_end_witness:
  "perform_search
     (example_env (Inr (example_response (example_document
        [Element (py ''content'') [(py ''name'', py ''title'')] (Some (py ''Diabetes'')) [],
         Element (py ''content'') [(py ''name'', py ''FullSummary'')]
           (Some (py ''<p>High blood sugar</p>'')) []])))
        (Inr (py ''Diabetes is a disease.'')))
     (py ''diabetes'') (example_app (py ''diabetes'')) [] =
     (Inr (update_gui_with_result
        (py ''Source: MedlinePlus (U.S. National Library of Medicine)'' @ [10, 10] @
         py ''High blood sugar'') (example_app (py ''diabetes''))),
      [HttpGet base_url (params (py ''diabetes'')) 10])"
  using diabetes_end_to_end
      [of "example_env (Inr (example_response (example_document
            [Element (py ''content'') [(py ''name'', py ''title'')] (Some (py ''Diabetes'')) [],
             Element (py ''content'') [(py ''name'', py ''FullSummary'')]
               (Some (py ''<p>High blood sugar</p>'')) []])))
            (Inr (py ''Diabetes is a disease.''))"
          "example_response (example_document
            [Element (py ''content'') [(py ''name'', py ''title'')] (Some (py ''Diabetes'')) [],
             Element (py ''content'') [(py ''name'', py ''FullSummary'')]
               (Some (py ''<p>High blood sugar</p>'')) []])"
          "Element (py ''nlmSearchResult'') [] None
             [Element (py ''term'') [] (Some (py ''query'')) [],
              Element (py ''list'') [(py ''num'', py ''1'')] None
                [Element (py ''document'') [(py ''rank'', py ''0'')] None
                   [Element (py ''content'') [(py ''name'', py ''title'')] (Some (py ''Diabetes'')) [],
                    Element (py ''content'') [(py ''name'', py ''FullSummary'')]
                      (Some (py ''<p>High blood sugar</p>'')) []]]]"
          "Element (py ''content'') [(py ''name'', py ''FullSummary'')]
             (Some (py ''<p>High blood sugar</p>'')) []"
          "example_app (py ''diabetes'')" "[]"]
  by (simp add: client_eval)


section \<open>Cleaning plain text\<close>








section \<open>List items\<close>








end
